theory Spec2Isabelle
  imports Complex_Main
begin

section \<open>JavaScript numbers\<close>

text \<open>
  A finite JavaScript number is modelled as a real (rounding and overflow of IEEE doubles
  are not modelled, nor is the sign of zero; the one product whose rounding decides a
  tier is a parameter of the classifiers that compute it). The values that finite arithmetic can still
  produce in this program, by a division by zero or by reading an array out of range,
  are kept apart in \<open>jsnum\<close>.
\<close>

type_synonym number = real

datatype jsnum = Num real | PosInf | NegInf | NaN

definition js_div :: "number \<Rightarrow> number \<Rightarrow> jsnum" where
  "js_div a b =
     (if b \<noteq> 0 then Num (a / b)
      else if 0 < a then PosInf
      else if a < 0 then NegInf
      else NaN)"

fun js_abs :: "jsnum \<Rightarrow> jsnum" where
  "js_abs (Num x) = Num \<bar>x\<bar>"
| "js_abs PosInf = PosInf"
| "js_abs NegInf = PosInf"
| "js_abs NaN = NaN"

text \<open>\<open>x > c\<close> for a finite constant \<open>c\<close>: every comparison with NaN is false.\<close>

fun js_gt :: "jsnum \<Rightarrow> number \<Rightarrow> bool" where
  "js_gt (Num x) c = (c < x)"
| "js_gt PosInf c = True"
| "js_gt NegInf c = False"
| "js_gt NaN c = False"

text \<open>\<open>x * c\<close> and \<open>x + c\<close> for a finite \<open>c\<close>, and \<open>Math.min(c, x)\<close>.\<close>

fun js_times :: "jsnum \<Rightarrow> number \<Rightarrow> jsnum" where
  "js_times (Num x) c = Num (x * c)"
| "js_times PosInf c = (if 0 < c then PosInf else if c < 0 then NegInf else NaN)"
| "js_times NegInf c = (if 0 < c then NegInf else if c < 0 then PosInf else NaN)"
| "js_times NaN c = NaN"

fun js_plus :: "jsnum \<Rightarrow> number \<Rightarrow> jsnum" where
  "js_plus (Num x) c = Num (x + c)"
| "js_plus PosInf c = PosInf"
| "js_plus NegInf c = NegInf"
| "js_plus NaN c = NaN"

fun js_min :: "number \<Rightarrow> jsnum \<Rightarrow> jsnum" where
  "js_min c (Num x) = Num (min c x)"
| "js_min c PosInf = Num c"
| "js_min c NegInf = NegInf"
| "js_min c NaN = NaN"

section \<open>The summary monitor (src/components/TradingMonitor.tsx)\<close>

datatype OnOff = ON | OFF

datatype Connection = CONNECTED | DISCONNECTED

record TradingData =
  algoState :: OnOff
  dailyPL :: number
  winRate :: number
  activePositions :: number
  pendingOrders :: number
  currentDrawdown :: number
  maxDrawdown :: number
  longestPosition :: number
  maxPositionTime :: number
  largestPosition :: number
  maxPositionSize :: number
  brokerStatus :: Connection
  dataFeedStatus :: Connection
  lastUpdate :: string

text \<open>
  The initial state of the component. \<open>lastUpdate\<close> is the clock's reading at mount,
  a parameter here.
\<close>

definition initialData :: "string \<Rightarrow> TradingData" where
  "initialData now =
     \<lparr> algoState = ON, dailyPL = 2847.50, winRate = 73, activePositions = 3,
       pendingOrders = 2, currentDrawdown = -150, maxDrawdown = -500,
       longestPosition = 8, maxPositionTime = 15, largestPosition = 12,
       maxPositionSize = 20, brokerStatus = CONNECTED, dataFeedStatus = CONNECTED,
       lastUpdate = now \<rparr>"

text \<open>
  One run of the interval callback. The two calls of \<open>Math.random()\<close> and the clock's
  reading are inputs: \<open>rPL\<close> is the draw used for \<open>dailyPL\<close>, \<open>rDD\<close> the one used for
  \<open>currentDrawdown\<close>.
\<close>

record DataDraws =
  rPL :: number
  rDD :: number
  isoNow :: string

text \<open>\<open>Math.random()\<close> returns a number in \<open>[0, 1)\<close>.\<close>

definition isRandom :: "number \<Rightarrow> bool" where
  "isRandom r = (0 \<le> r \<and> r < 1)"

definition validDataDraws :: "DataDraws \<Rightarrow> bool" where
  "validDataDraws d = (isRandom (rPL d) \<and> isRandom (rDD d))"

definition tickData :: "DataDraws \<Rightarrow> TradingData \<Rightarrow> TradingData" where
  "tickData d prev =
     prev\<lparr> dailyPL := dailyPL prev + (rPL d - 0.3) * 50,
           currentDrawdown :=
             max (currentDrawdown prev + (rDD d - 0.5) * 20) (maxDrawdown prev),
           longestPosition := min (longestPosition prev + 0.5) 25,
           lastUpdate := isoNow d \<rparr>"

text \<open>The state after the interval has fired once for each element of \<open>ds\<close>, in order.\<close>

definition runData :: "DataDraws list \<Rightarrow> TradingData \<Rightarrow> TradingData" where
  "runData ds s = fold tickData ds s"

text \<open>The three colours the classifiers return, under the names of the tiers.\<close>

abbreviation CRITICAL :: string where "CRITICAL \<equiv> ''#FF3737''"
abbreviation WARNING :: string where "WARNING \<equiv> ''#FFA500''"
abbreviation NORMAL :: string where "NORMAL \<equiv> ''#00D26A''"

definition drawdownRatio :: "TradingData \<Rightarrow> jsnum" where
  "drawdownRatio data = js_abs (js_div (currentDrawdown data) (maxDrawdown data))"

definition getDrawdownColor :: "TradingData \<Rightarrow> string" where
  "getDrawdownColor data =
     (let ratio = drawdownRatio data in
      if js_gt ratio 0.8 then CRITICAL
      else if js_gt ratio 0.5 then WARNING
      else NORMAL)"

text \<open>
  The product \<open>max * 0.8\<close> decides the 80% tier, and the machine rounds it: the product of
  the doubles 3 and 0.8 is 2.4000000000000004, not 2.4. The multiplication of doubles is
  therefore a parameter \<open>fmul\<close> of the two classifiers that use it, and what is proved of
  them is proved for every multiplication. The comparisons themselves are exact.
\<close>

definition getTimeColor :: "(number \<Rightarrow> number \<Rightarrow> number) \<Rightarrow> TradingData \<Rightarrow> string" where
  "getTimeColor fmul data =
     (if longestPosition data > maxPositionTime data then CRITICAL
      else if longestPosition data > fmul (maxPositionTime data) 0.8 then WARNING
      else NORMAL)"

definition getPositionSizeColor ::
  "(number \<Rightarrow> number \<Rightarrow> number) \<Rightarrow> TradingData \<Rightarrow> string" where
  "getPositionSizeColor fmul data =
     (if largestPosition data > maxPositionSize data then CRITICAL
      else if largestPosition data > fmul (maxPositionSize data) 0.8 then WARNING
      else NORMAL)"

text \<open>
  The double 2.4000000000000004, and a multiplication that returns it for 3 times 0.8 as
  the machine does, and the product of the reals elsewhere.
\<close>

definition double_2_4 :: number where
  "double_2_4 = 5404319552844596 / 2 ^ 51"

definition fmul_at_3 :: "number \<Rightarrow> number \<Rightarrow> number" where
  "fmul_at_3 a b = (if a = 3 \<and> b = 0.8 then double_2_4 else a * b)"

text \<open>
  The shared tier rule as the specification words it, on a (value, max) pair, with the
  quotient of the reals; the classifiers above are compared with it.
\<close>

definition tier_spec :: "number \<Rightarrow> number \<Rightarrow> string" where
  "tier_spec v m =
     (if v / m > 1 then CRITICAL else if v / m > 0.8 then WARNING else NORMAL)"

text \<open>Draws that push the drawdown up by 9.8 at every tick; both lie in \<open>[0, 1)\<close>.\<close>

definition risingDraws :: DataDraws where
  "risingDraws = \<lparr> rPL = 0.5, rDD = 0.99, isoNow = '''' \<rparr>"

section \<open>The dashboard (src/unnamed/part_000)\<close>

subsection \<open>Types\<close>

datatype Side = LONG | SHORT

text \<open>
  The field \<open>id\<close> of the source is \<open>id_pos\<close> in a position and \<open>id_log\<close> in a log message,
  and the dashboard's \<open>winRate\<close> is \<open>winRate_D\<close> (the summary monitor has a field of that
  name too). A price history can hold NaN once a tick has read a history shorter than
  eight samples, so its samples are \<open>jsnum\<close>s.
\<close>

record Position =
  id_pos :: string
  symbol :: string
  side :: Side
  pnl :: number
  entryPrice :: number
  markPrice :: number
  zScore :: number
  durationMinutes :: number
  maxDurationMinutes :: number
  priceHistory :: "jsnum list"

datatype Level = INFO | WARN | CRIT

text \<open>A message read from an array out of range is \<open>undefined\<close>, here \<open>None\<close>.\<close>

record LogMessage =
  id_log :: number
  timestamp :: string
  level :: Level
  message :: "string option"

datatype Status = ALIVE | DEGRADED | HALTED

record Health =
  latencyMs :: number
  apiRequestsRemaining :: number
  apiLimitMax :: number
  memoryUsageMB :: number
  totalMemoryMB :: number
  status :: Status

record DashboardData =
  dailyPnL :: number
  winRate_D :: number
  health :: Health
  positions :: "Position list"
  logs :: "LogMessage list"

subsection \<open>The hold-to-confirm button\<close>

text \<open>
  The state of one \<open>SafeTriggerButton\<close>: the two state variables, whether the interval
  held by \<open>timerRef\<close> is still scheduled, and a counter of the calls of \<open>onTrigger\<close> made
  so far (the only trace the callback leaves in the button).
\<close>

record Gate =
  progress :: number
  isPressing :: bool
  timerLive :: bool
  triggered :: nat

definition initialGate :: Gate where
  "initialGate = \<lparr> progress = 0, isPressing = False, timerLive = False, triggered = 0 \<rparr>"

definition HOLD_DURATION :: number where
  "HOLD_DURATION = 800"

text \<open>
  The effect that depends on \<open>isPressing\<close>, run after a render in which it changed; the
  cleanup of the previous run has cleared the interval before.
\<close>

definition effectCleanup :: "Gate \<Rightarrow> Gate" where
  "effectCleanup g = g\<lparr> timerLive := False \<rparr>"

definition pressEffect :: "Gate \<Rightarrow> Gate" where
  "pressEffect g =
     (if isPressing g then g\<lparr> timerLive := True \<rparr>
      else g\<lparr> progress := 0, timerLive := False \<rparr>)"

text \<open>Setting \<open>isPressing\<close> to the value it has renders nothing and runs no effect.\<close>

definition startPress :: "Gate \<Rightarrow> Gate" where
  "startPress g =
     (if isPressing g then g
      else pressEffect (effectCleanup (g\<lparr> isPressing := True \<rparr>)))"

definition endPress :: "Gate \<Rightarrow> Gate" where
  "endPress g =
     (let g' = g\<lparr> isPressing := False, progress := 0, timerLive := False \<rparr>
      in if isPressing g then pressEffect (effectCleanup g') else g')"

text \<open>
  The interval's callback, which fires every 50 ms while the interval is scheduled and
  not at all once it is cleared.
\<close>

definition intervalTick :: "Gate \<Rightarrow> Gate" where
  "intervalTick g =
     (if \<not> timerLive g then g
      else if progress g \<ge> 100
        then g\<lparr> timerLive := False, triggered := Suc (triggered g), progress := 0 \<rparr>
        else g\<lparr> progress := progress g + 100 / (HOLD_DURATION / 50) \<rparr>)"

text \<open>A button at rest: not pressed, no progress, no interval scheduled.\<close>

definition idle :: "Gate \<Rightarrow> bool" where
  "idle g = (\<not> isPressing g \<and> progress g = 0 \<and> \<not> timerLive g)"

text \<open>
  The effect lists \<open>onTrigger\<close> among its dependencies too, and the dashboard passes a new
  function at each of its renders: then the cleanup and the effect run again, with
  \<open>isPressing\<close> as it is.
\<close>

definition rerender :: "Gate \<Rightarrow> Gate" where
  "rerender g = pressEffect (effectCleanup g)"

text \<open>
  What can happen to a button between a press and its release: the interval fires, or
  the dashboard renders. \<open>held es g\<close> is the button \<open>g\<close> pressed, after the events \<open>es\<close>.
\<close>

datatype GateEvent = Tick | Rerender

fun gateStep :: "GateEvent \<Rightarrow> Gate \<Rightarrow> Gate" where
  "gateStep Tick g = intervalTick g"
| "gateStep Rerender g = rerender g"

definition held :: "GateEvent list \<Rightarrow> Gate \<Rightarrow> Gate" where
  "held es g = fold gateStep es (startPress g)"

subsection \<open>The dashboard state and its two writers\<close>

text \<open>The initial mock state; \<open>t1\<close> and \<open>t2\<close> are the clock's readings for the two log lines.\<close>

definition initialDashboard :: "string \<Rightarrow> string \<Rightarrow> DashboardData" where
  "initialDashboard t1 t2 =
     \<lparr> dailyPnL = 1240.50, winRate_D = 68,
       health = \<lparr> latencyMs = 45, apiRequestsRemaining = 1850, apiLimitMax = 2000,
                  memoryUsageMB = 450, totalMemoryMB = 1024, status = ALIVE \<rparr>,
       positions =
         [ \<lparr> id_pos = ''1'', symbol = ''BTC/USD'', side = LONG, pnl = 450.00,
             entryPrice = 64000, markPrice = 64500, zScore = -2.4, durationMinutes = 14,
             maxDurationMinutes = 45,
             priceHistory = map Num [64000, 63950, 63900, 64100, 64200, 64150, 64300, 64500] \<rparr>,
           \<lparr> id_pos = ''2'', symbol = ''ETH/USD'', side = SHORT, pnl = -120.50,
             entryPrice = 3400, markPrice = 3420, zScore = 1.8, durationMinutes = 180,
             maxDurationMinutes = 60,
             priceHistory = map Num [3400, 3390, 3380, 3410, 3415, 3425, 3420, 3420] \<rparr>,
           \<lparr> id_pos = ''3'', symbol = ''SOL/USD'', side = LONG, pnl = 85.20,
             entryPrice = 145, markPrice = 148, zScore = -1.1, durationMinutes = 5,
             maxDurationMinutes = 45,
             priceHistory = map Num [145, 144, 146, 145, 147, 146, 147, 148] \<rparr> ],
       logs =
         [ \<lparr> id_log = 1, timestamp = t1, level = INFO, message = Some ''System initialized'' \<rparr>,
           \<lparr> id_log = 2, timestamp = t2, level = INFO,
             message = Some ''Connected to Kraken WS'' \<rparr> ] \<rparr>"

text \<open>
  \<open>closePosition\<close>; \<open>now\<close> is \<open>Date.now()\<close> and \<open>clock\<close> the formatted time of day.
\<close>

definition closePosition ::
  "string \<Rightarrow> string \<Rightarrow> number \<Rightarrow> string \<Rightarrow> DashboardData \<Rightarrow> DashboardData" where
  "closePosition i symb now clock prev =
     prev\<lparr> positions := filter (\<lambda>p. id_pos p \<noteq> i) (positions prev),
           logs := logs prev @
             [ \<lparr> id_log = now, timestamp = clock, level = WARN,
                 message = Some (''MANUAL LIQUIDATION: '' @ symb @ '' CLOSED'') \<rparr> ] \<rparr>"

text \<open>
  The inputs of one run of the simulation interval: the draws of \<open>Math.random()\<close> in the
  order of the calls (latency, P&L, the gate of the log line, the choice of its message,
  then a P&L draw and a price draw for each position, by its index), and the clock.
\<close>

record TickDraws =
  rLatency :: number
  rPnL :: number
  rLog :: number
  rMsg :: number
  rPos :: "nat \<Rightarrow> number \<times> number"
  dateNow :: number
  clock :: string

definition msgs :: "string list" where
  "msgs = [''Order Book Update'', ''Latency Spike'', ''Garbage Collection'',
           ''Strategy Heartbeat'']"

text \<open>Reading an array at an integer index: \<open>undefined\<close> out of range.\<close>

definition js_index :: "'a list \<Rightarrow> int \<Rightarrow> 'a option" where
  "js_index xs i = (if 0 \<le> i \<and> i < int (length xs) then Some (xs ! nat i) else None)"

text \<open>Reading a number to add to it: \<open>undefined + c\<close> is NaN.\<close>

definition js_nth :: "jsnum list \<Rightarrow> nat \<Rightarrow> jsnum" where
  "js_nth xs i = (if i < length xs then xs ! i else NaN)"

definition newLatency :: "TickDraws \<Rightarrow> DashboardData \<Rightarrow> number" where
  "newLatency d prev =
     max 20 (of_int \<lfloor>latencyMs (health prev) + (rLatency d - 0.5) * 40\<rfloor>)"

definition newLogs :: "TickDraws \<Rightarrow> DashboardData \<Rightarrow> LogMessage list" where
  "newLogs d prev =
     (if rLog d > 0.9 then
        (let pushed = logs prev @
               [ \<lparr> id_log = dateNow d, timestamp = clock d, level = INFO,
                   message = js_index msgs \<lfloor>rMsg d * real (length msgs)\<rfloor> \<rparr> ]
         in if length pushed > 50 then tl pushed else pushed)
      else logs prev)"

definition tickPosition :: "number \<times> number \<Rightarrow> Position \<Rightarrow> Position" where
  "tickPosition r pos =
     pos\<lparr> pnl := pnl pos + (fst r - 0.5) * 10,
          priceHistory := drop 1 (priceHistory pos) @
            [js_plus (js_nth (priceHistory pos) 7) ((snd r - 0.5) * 10)] \<rparr>"

definition tickDashboard :: "TickDraws \<Rightarrow> DashboardData \<Rightarrow> DashboardData" where
  "tickDashboard d prev =
     prev\<lparr> dailyPnL := dailyPnL prev + (rPnL d - 0.45) * 50,
           health := (health prev)
             \<lparr> latencyMs := newLatency d prev,
               status := (if newLatency d prev > 300 then DEGRADED else ALIVE),
               apiRequestsRemaining := max 0 (apiRequestsRemaining (health prev) - 1) \<rparr>,
           logs := newLogs d prev,
           positions :=
             map (\<lambda>(i, pos). tickPosition (rPos d i) pos) (enumerate 0 (positions prev)) \<rparr>"

definition runDashboard :: "TickDraws list \<Rightarrow> DashboardData \<Rightarrow> DashboardData" where
  "runDashboard ds s = fold tickDashboard ds s"

text \<open>
  What a position's card computes for its staleness bar: \<open>isStale\<close>, the bar's width in
  percent (\<open>progress\<close> in the source, \<open>progress_card\<close> here) and the bar's class, which is
  the card's only classification of staleness.
\<close>

definition isStale :: "Position \<Rightarrow> bool" where
  "isStale pos = (durationMinutes pos > maxDurationMinutes pos)"

definition progress_card :: "Position \<Rightarrow> jsnum" where
  "progress_card pos =
     js_min 100 (js_times (js_div (durationMinutes pos) (maxDurationMinutes pos)) 100)"

definition barClass :: "Position \<Rightarrow> string" where
  "barClass pos =
     ''h-full transition-all duration-500 '' @
     (if isStale pos then ''bg-red-500'' else ''bg-gray-600'')"

text \<open>
  Two inputs of the tick used below: one that logs a line and one that logs nothing and
  leaves the latency where it is. All their draws lie in \<open>[0, 1)\<close>.
\<close>

definition loggingDraws :: TickDraws where
  "loggingDraws =
     \<lparr> rLatency = 0.5, rPnL = 0.5, rLog = 0.95, rMsg = 0.3, rPos = (\<lambda>i. (0.5, 0.5)),
       dateNow = 1700000000000, clock = ''10:00:00 AM'' \<rparr>"

definition quietDraws :: TickDraws where
  "quietDraws =
     \<lparr> rLatency = 0.5, rPnL = 0.5, rLog = 0.1, rMsg = 0.3, rPos = (\<lambda>i. (0.5, 0.5)),
       dateNow = 1700000000000, clock = ''10:00:00 AM'' \<rparr>"

definition validTickDraws :: "nat \<Rightarrow> TickDraws \<Rightarrow> bool" where
  "validTickDraws n d =
     (isRandom (rLatency d) \<and> isRandom (rPnL d) \<and> isRandom (rLog d) \<and> isRandom (rMsg d) \<and>
      list_all (\<lambda>i. isRandom (fst (rPos d i)) \<and> isRandom (snd (rPos d i))) [0..<n])"

text \<open>The first initial position, with a given duration (its maximum duration is 45).\<close>

definition position1 :: "number \<Rightarrow> Position" where
  "position1 dur = (positions (initialDashboard '''' '''') ! 0)\<lparr> durationMinutes := dur \<rparr>"

section \<open>The risk classifiers\<close>

lemma tier_rule_iff:
  fixes q :: real
  shows "((if 1 < q then CRITICAL else if 0.8 < q then WARNING else NORMAL) = CRITICAL
            \<longleftrightarrow> 1 < q) \<and>
         ((if 1 < q then CRITICAL else if 0.8 < q then WARNING else NORMAL) = WARNING
            \<longleftrightarrow> 0.8 < q \<and> q \<le> 1) \<and>
         ((if 1 < q then CRITICAL else if 0.8 < q then WARNING else NORMAL) = NORMAL
            \<longleftrightarrow> q \<le> 0.8)"
  by auto

lemma tier_spec_iff:
  "(tier_spec v m = CRITICAL \<longleftrightarrow> 1 < v / m) \<and>
   (tier_spec v m = WARNING \<longleftrightarrow> 0.8 < v / m \<and> v / m \<le> 1) \<and>
   (tier_spec v m = NORMAL \<longleftrightarrow> v / m \<le> 0.8)"
  unfolding tier_spec_def by (rule tier_rule_iff)

text \<open>The two classifiers are one rule, on their own pair of fields.\<close>

lemma size_as_time:
  "getPositionSizeColor fmul (data\<lparr>largestPosition := v, maxPositionSize := m\<rparr>)
     = getTimeColor fmul (data\<lparr>longestPosition := v, maxPositionTime := m\<rparr>)"
  by (simp add: getTimeColor_def getPositionSizeColor_def)

lemma getTimeColor_tiers:
  "0 < m \<Longrightarrow>
   (getTimeColor fmul (data\<lparr>longestPosition := v, maxPositionTime := m\<rparr>) = CRITICAL
      \<longleftrightarrow> 1 < v / m) \<and>
   (getTimeColor fmul (data\<lparr>longestPosition := v, maxPositionTime := m\<rparr>) = WARNING
      \<longleftrightarrow> fmul m 0.8 < v \<and> v / m \<le> 1) \<and>
   (getTimeColor fmul (data\<lparr>longestPosition := v, maxPositionTime := m\<rparr>) = NORMAL
      \<longleftrightarrow> v \<le> fmul m 0.8 \<and> v / m \<le> 1)"
  by (auto simp: getTimeColor_def)

text \<open>Away from the 80% boundary by more than the error of the product.\<close>

lemma above_rounded_product:
  fixes m v t e :: real
  assumes m: "0 < m" and t: "\<bar>t - 0.8 * m\<bar> \<le> e * m" and v: "0.8 + e < v / m"
  shows "t < v"
proof -
  have "t \<le> 0.8 * m + e * m" using t by linarith
  also have "\<dots> = (0.8 + e) * m" by (simp add: algebra_simps)
  also have "\<dots> < (v / m) * m" using v m by (rule mult_strict_right_mono)
  also have "\<dots> = v" using m by simp
  finally show ?thesis .
qed

lemma below_rounded_product:
  fixes m v t e :: real
  assumes m: "0 < m" and t: "\<bar>t - 0.8 * m\<bar> \<le> e * m" and v: "v / m \<le> 0.8 - e"
  shows "v \<le> t \<and> v / m \<le> 1"
proof -
  have e: "0 \<le> e"
  proof -
    have "0 \<le> e * m" using t by linarith
    then show ?thesis using m by (simp add: zero_le_mult_iff)
  qed
  have "v = (v / m) * m" using m by simp
  also have "\<dots> \<le> (0.8 - e) * m" using v m by (intro mult_right_mono) simp_all
  also have "\<dots> = 0.8 * m - e * m" by (simp add: algebra_simps)
  also have "\<dots> \<le> t" using t by linarith
  finally have "v \<le> t" .
  moreover have "v / m \<le> 1" using v e by linarith
  ultimately show ?thesis by simp
qed

text \<open>
  Claim C1, as amended. For every pair (value, max) with \<open>max > 0\<close>, the time classifier
  and the position-size classifier compute the same tier by one shared rule: CRITICAL iff
  \<open>value / max > 1\<close>; WARNING iff the value exceeds the product \<open>max * 0.8\<close> as the machine
  computes it, without exceeding the maximum; NORMAL otherwise. When that product is
  within \<open>e * max\<close> of \<open>0.8 * max\<close>, the tier is WARNING whenever
  \<open>0.8 + e < value / max \<le> 1\<close> and NORMAL whenever \<open>value / max \<le> 0.8 - e\<close>. (The
  drawdown classifier is not part of this rule: its breakpoints are those of claim C6.)
\<close>

theorem time_and_size_tiers:
  "0 < m \<Longrightarrow>
   getPositionSizeColor fmul (data\<lparr>largestPosition := v, maxPositionSize := m\<rparr>)
     = getTimeColor fmul (data\<lparr>longestPosition := v, maxPositionTime := m\<rparr>) \<and>
   (getTimeColor fmul (data\<lparr>longestPosition := v, maxPositionTime := m\<rparr>) = CRITICAL
      \<longleftrightarrow> 1 < v / m) \<and>
   (getTimeColor fmul (data\<lparr>longestPosition := v, maxPositionTime := m\<rparr>) = WARNING
      \<longleftrightarrow> fmul m 0.8 < v \<and> v / m \<le> 1) \<and>
   (getTimeColor fmul (data\<lparr>longestPosition := v, maxPositionTime := m\<rparr>) = NORMAL
      \<longleftrightarrow> v \<le> fmul m 0.8 \<and> v / m \<le> 1) \<and>
   (\<bar>fmul m 0.8 - 0.8 * m\<bar> \<le> e * m \<longrightarrow>
      (0.8 + e < v / m \<and> v / m \<le> 1 \<longrightarrow>
         getTimeColor fmul (data\<lparr>longestPosition := v, maxPositionTime := m\<rparr>) = WARNING) \<and>
      (v / m \<le> 0.8 - e \<longrightarrow>
         getTimeColor fmul (data\<lparr>longestPosition := v, maxPositionTime := m\<rparr>) = NORMAL))"
proof -
  assume m: "0 < m"
  let ?c = "getTimeColor fmul (data\<lparr>longestPosition := v, maxPositionTime := m\<rparr>)"
  note t = getTimeColor_tiers [OF m, where fmul = fmul and data = data and v = v]
  have w: "?c = WARNING"
    if "\<bar>fmul m 0.8 - 0.8 * m\<bar> \<le> e * m" and "0.8 + e < v / m" and "v / m \<le> 1"
    using t above_rounded_product [OF m that(1) that(2)] that(3) by blast
  have n: "?c = NORMAL" if "\<bar>fmul m 0.8 - 0.8 * m\<bar> \<le> e * m" and "v / m \<le> 0.8 - e"
    using t below_rounded_product [OF m that(1) that(2)] by blast
  show ?thesis
    using size_as_time [where fmul = fmul and data = data and v = v and m = m] t w n
    by blast
qed

text \<open>
  Claim C1, witness. With the product of the reals (which is the machine's product at
  15 times 0.8), 13 of 15 is WARNING and 10 of 15 is NORMAL for both classifiers. With
  the machine's product at 3 times 0.8, the value 2.4000000000000004 of 3 is NORMAL,
  although its quotient exceeds 0.8.
\<close>

theorem time_and_size_tiers_witness:
  "getTimeColor (*) (initialData ''''\<lparr>longestPosition := 13, maxPositionTime := 15\<rparr>) = WARNING \<and>
   getPositionSizeColor (*) (initialData ''''\<lparr>largestPosition := 13, maxPositionSize := 15\<rparr>)
     = WARNING \<and>
   getTimeColor (*) (initialData ''''\<lparr>longestPosition := 10, maxPositionTime := 15\<rparr>) = NORMAL \<and>
   getTimeColor fmul_at_3 (initialData ''''\<lparr>longestPosition := double_2_4, maxPositionTime := 3\<rparr>)
     = NORMAL \<and>
   0.8 < double_2_4 / 3"
  using
    time_and_size_tiers [where m = 15 and v = 13 and fmul = "(*)" and e = 0
      and data = "initialData ''''"]
    time_and_size_tiers [where m = 15 and v = 10 and fmul = "(*)" and e = 0
      and data = "initialData ''''"]
    time_and_size_tiers [where m = 3 and v = double_2_4 and fmul = fmul_at_3 and e = 0
      and data = "initialData ''''"]
  by (simp add: fmul_at_3_def double_2_4_def)

text \<open>
  Claim C1, counterexample. On the pair (450, 500), whose ratio 0.9 does not exceed 1, the
  drawdown classifier answers CRITICAL where the time classifier and the shared rule
  answer WARNING; the same holds on the pair (-450, -500). And on the pair
  (2.4000000000000004, 3), whose ratio exceeds 0.8, the time classifier answers NORMAL
  where the shared rule answers WARNING, the machine's product of 3 and 0.8 being
  2.4000000000000004.
\<close>

theorem drawdown_breaks_shared_rule:
  "getDrawdownColor (initialData ''''\<lparr>currentDrawdown := 450, maxDrawdown := 500\<rparr>) = CRITICAL \<and>
   getDrawdownColor (initialData ''''\<lparr>currentDrawdown := -450, maxDrawdown := -500\<rparr>) = CRITICAL \<and>
   getTimeColor (*) (initialData ''''\<lparr>longestPosition := 450, maxPositionTime := 500\<rparr>)
     = WARNING \<and>
   tier_spec 450 500 = WARNING \<and> \<not> (1 < (450::real) / 500) \<and>
   getTimeColor fmul_at_3 (initialData ''''\<lparr>longestPosition := double_2_4, maxPositionTime := 3\<rparr>)
     = NORMAL \<and>
   tier_spec double_2_4 3 = WARNING"
  by (simp add: getDrawdownColor_def drawdownRatio_def js_div_def getTimeColor_def
      tier_spec_def initialData_def fmul_at_3_def double_2_4_def)



section \<open>The drawdown clamp of the summary monitor\<close>

lemma maxDrawdown_tickData: "maxDrawdown (tickData d s) = maxDrawdown s"
  by (simp add: tickData_def)

lemma maxDrawdown_runData: "maxDrawdown (runData ds s) = maxDrawdown s"
  unfolding runData_def by (induction ds arbitrary: s) (simp_all add: maxDrawdown_tickData)

lemma clamp_tickData: "maxDrawdown s \<le> currentDrawdown (tickData d s)"
  by (simp add: tickData_def)

lemma clamp_runData:
  "maxDrawdown s \<le> currentDrawdown s \<Longrightarrow> maxDrawdown s \<le> currentDrawdown (runData ds s)"
  unfolding runData_def
proof (induction ds arbitrary: s)
  case Nil
  then show ?case by simp
next
  case (Cons d ds)
  have "maxDrawdown (tickData d s) \<le> currentDrawdown (fold tickData ds (tickData d s))"
    by (rule Cons.IH) (simp add: maxDrawdown_tickData clamp_tickData)
  then show ?case by (simp add: maxDrawdown_tickData)
qed

lemma rising_runData:
  "maxDrawdown s \<le> currentDrawdown s \<Longrightarrow>
   currentDrawdown (runData (replicate n risingDraws) s) = currentDrawdown s + real n * 9.8"
proof (induction n arbitrary: s)
  case 0
  then show ?case by (simp add: runData_def)
next
  case (Suc n)
  have t: "currentDrawdown (tickData risingDraws s) = currentDrawdown s + 9.8"
    using Suc.prems by (simp add: tickData_def risingDraws_def)
  have "maxDrawdown (tickData risingDraws s) \<le> currentDrawdown (tickData risingDraws s)"
    by (simp add: maxDrawdown_tickData clamp_tickData)
  from Suc.IH [OF this]
  show ?case by (simp add: runData_def t algebra_simps)
qed

text \<open>
  Claim C10, as amended. In every state that ticks reach from the initial state (whatever
  the draws), the maximum drawdown is -500 and the current drawdown is at least the
  maximum drawdown; the drawdown ratio does not exceed 1 as long as the current drawdown
  is negative or zero. (Nothing bounds the current drawdown from above.)
\<close>

theorem drawdown_lower_clamp:
  "maxDrawdown (runData ds (initialData now)) = -500 \<and>
   maxDrawdown (runData ds (initialData now)) \<le> currentDrawdown (runData ds (initialData now)) \<and>
   (currentDrawdown (runData ds (initialData now)) \<le> 0 \<longrightarrow>
      \<not> js_gt (drawdownRatio (runData ds (initialData now))) 1)"
proof -
  let ?s = "runData ds (initialData now)"
  have m: "maxDrawdown ?s = -500"
    by (simp add: maxDrawdown_runData initialData_def)
  have "maxDrawdown (initialData now) \<le> currentDrawdown ?s"
    by (rule clamp_runData) (simp add: initialData_def)
  then have c: "-500 \<le> currentDrawdown ?s"
    by (simp add: initialData_def)
  have "\<not> js_gt (drawdownRatio ?s) 1" if "currentDrawdown ?s \<le> 0"
    using that c by (simp add: drawdownRatio_def js_div_def m)
  then show ?thesis using m c by simp
qed

text \<open>Claim C10, witness: after two rising ticks the drawdown is -130.4, ratio 0.2608.\<close>

theorem drawdown_lower_clamp_witness:
  "currentDrawdown (runData [risingDraws, risingDraws] (initialData '''')) = -130.4 \<and>
   \<not> js_gt (drawdownRatio (runData [risingDraws, risingDraws] (initialData ''''))) 1"
  using drawdown_lower_clamp [of "[risingDraws, risingDraws]" "''''"]
  by (simp add: runData_def tickData_def risingDraws_def initialData_def)

text \<open>
  Claim C10, counterexample. Sixty-seven ticks whose drawdown draw is 0.99 (a value
  \<open>Math.random()\<close> can return) lead from the initial state to a current drawdown of
  +506.6: it is positive, and the ratio to the maximum drawdown exceeds 1.
\<close>

theorem drawdown_ratio_exceeds_one:
  "list_all validDataDraws (replicate 67 risingDraws) \<and>
   0 < currentDrawdown (runData (replicate 67 risingDraws) (initialData '''')) \<and>
   js_gt (drawdownRatio (runData (replicate 67 risingDraws) (initialData ''''))) 1"
proof -
  have "currentDrawdown (runData (replicate 67 risingDraws) (initialData '''')) = 506.6"
    by (subst rising_runData) (simp_all add: initialData_def)
  moreover have "maxDrawdown (runData (replicate 67 risingDraws) (initialData '''')) = -500"
    by (simp add: maxDrawdown_runData initialData_def)
  moreover have "list_all validDataDraws (replicate 67 risingDraws)"
    by (simp add: list_all_iff validDataDraws_def isRandom_def risingDraws_def)
  ultimately show ?thesis
    by (simp add: drawdownRatio_def js_div_def)
qed

section \<open>Staleness of a position\<close>

text \<open>
  Claim C7, as amended. For a position whose maximum duration is positive, the card has
  two classes of staleness and no more: the bar is red (and \<open>isStale\<close> holds) exactly when
  the duration exceeds the maximum, and grey otherwise, also above 80% of the maximum.
  The progress of the bar, a percentage, is 100 times \<open>min(1, duration / max)\<close>.
\<close>

theorem card_staleness_and_progress:
  "0 < maxDurationMinutes pos \<Longrightarrow>
   (isStale pos \<longleftrightarrow> maxDurationMinutes pos < durationMinutes pos) \<and>
   (barClass pos = ''h-full transition-all duration-500 bg-red-500''
      \<longleftrightarrow> maxDurationMinutes pos < durationMinutes pos) \<and>
   (barClass pos = ''h-full transition-all duration-500 bg-gray-600''
      \<longleftrightarrow> durationMinutes pos \<le> maxDurationMinutes pos) \<and>
   progress_card pos = Num (100 * min 1 (durationMinutes pos / maxDurationMinutes pos))"
proof -
  assume m: "0 < maxDurationMinutes pos"
  have j: "js_div (durationMinutes pos) (maxDurationMinutes pos)
      = Num (durationMinutes pos / maxDurationMinutes pos)"
    using m by (simp add: js_div_def)
  have q: "min 100 (q * 100) = 100 * min 1 q" for q :: real
    by (simp add: min_def)
  have p: "progress_card pos = Num (100 * min 1 (durationMinutes pos / maxDurationMinutes pos))"
    by (simp only: progress_card_def j js_times.simps js_min.simps q)
  have b: "(barClass pos = ''h-full transition-all duration-500 bg-red-500'' \<longleftrightarrow> isStale pos) \<and>
      (barClass pos = ''h-full transition-all duration-500 bg-gray-600'' \<longleftrightarrow> \<not> isStale pos)"
    by (simp add: barClass_def)
  show ?thesis using p b by (auto simp: isStale_def)
qed

text \<open>
  Claim C7, witness: position 1 with duration 46 of 45 is stale, its bar red and full;
  with duration 40 of 45 it is not stale, its bar grey and at 88.9%.
\<close>

theorem card_staleness_and_progress_witness:
  "isStale (position1 46) \<and>
   barClass (position1 46) = ''h-full transition-all duration-500 bg-red-500'' \<and>
   progress_card (position1 46) = Num 100 \<and>
   \<not> isStale (position1 40) \<and>
   barClass (position1 40) = ''h-full transition-all duration-500 bg-gray-600'' \<and>
   progress_card (position1 40) = Num (800 / 9)"
  using card_staleness_and_progress [of "position1 46"]
    card_staleness_and_progress [of "position1 40"]
  by (simp add: position1_def initialDashboard_def)

text \<open>
  Claim C7, counterexample. Position 1 with duration 40 of 45, above 80% of the maximum,
  gets the class of the same position with duration 14 of 45, below 80%: the card has no
  WARNING tier.
\<close>

theorem card_has_no_warning_tier:
  "0.8 * maxDurationMinutes (position1 40) < durationMinutes (position1 40) \<and>
   durationMinutes (position1 40) \<le> maxDurationMinutes (position1 40) \<and>
   durationMinutes (position1 14) \<le> 0.8 * maxDurationMinutes (position1 14) \<and>
   \<not> isStale (position1 40) \<and>
   barClass (position1 40) = barClass (position1 14) \<and>
   barClass (position1 40) = ''h-full transition-all duration-500 bg-gray-600''"
  by (simp add: position1_def initialDashboard_def barClass_def isStale_def)

section \<open>The health status\<close>

lemma health_tickDashboard:
  "latencyMs (health (tickDashboard d prev)) = newLatency d prev \<and>
   status (health (tickDashboard d prev)) = (if newLatency d prev > 300 then DEGRADED else ALIVE) \<and>
   apiRequestsRemaining (health (tickDashboard d prev))
     = max 0 (apiRequestsRemaining (health prev) - 1)"
  by (simp add: tickDashboard_def)

lemma runDashboard_snoc: "runDashboard (ds @ [d]) s = tickDashboard d (runDashboard ds s)"
  by (simp add: runDashboard_def)

lemma remaining_runDashboard:
  "apiRequestsRemaining (health (runDashboard ds s))
     = (if ds = [] then apiRequestsRemaining (health s)
        else max 0 (apiRequestsRemaining (health s) - real (length ds)))"
proof (induction ds rule: rev_induct)
  case Nil
  then show ?case by (simp add: runDashboard_def)
next
  case (snoc d ds)
  then show ?case
    by (cases "ds = []") (auto simp: runDashboard_snoc health_tickDashboard runDashboard_def)
qed

lemma quiet_latency:
  "latencyMs (health s) = 45 \<Longrightarrow>
   latencyMs (health (runDashboard (replicate n quietDraws) s)) = 45"
proof (induction n)
  case 0
  then show ?case by (simp add: runDashboard_def)
next
  case (Suc n)
  have "replicate (Suc n) quietDraws = replicate n quietDraws @ [quietDraws]"
    by (simp add: replicate_append_same)
  then show ?case using Suc
    by (simp only: runDashboard_snoc health_tickDashboard)
       (simp add: newLatency_def quietDraws_def)
qed

text \<open>
  Claim C2, as amended. After every health update the status is DEGRADED exactly when the
  new latency exceeds 300 ms and ALIVE exactly when it is at most 300 ms, whatever the
  remaining API quota; the update never derives HALTED.
\<close>

theorem status_follows_latency_only:
  "(status (health (tickDashboard d prev)) = DEGRADED
      \<longleftrightarrow> 300 < latencyMs (health (tickDashboard d prev))) \<and>
   (status (health (tickDashboard d prev)) = ALIVE
      \<longleftrightarrow> latencyMs (health (tickDashboard d prev)) \<le> 300) \<and>
   status (health (tickDashboard d prev)) \<noteq> HALTED"
  by (simp add: health_tickDashboard)

text \<open>
  Claim C2, counterexample. After 1850 ticks from the initial state the remaining quota is
  0, and with a latency of 45 ms the status is ALIVE, not HALTED.
\<close>

theorem quota_exhausted_not_halted:
  "apiRequestsRemaining
     (health (runDashboard (replicate 1850 quietDraws) (initialDashboard '''' ''''))) = 0 \<and>
   latencyMs (health (runDashboard (replicate 1850 quietDraws) (initialDashboard '''' ''''))) = 45 \<and>
   status (health (runDashboard (replicate 1850 quietDraws) (initialDashboard '''' ''''))) = ALIVE"
proof -
  let ?i = "initialDashboard '''' ''''"
  have l: "latencyMs (health ?i) = 45" by (simp add: initialDashboard_def)
  have "(1850::nat) = Suc 1849" by simp
  then have r: "replicate 1850 quietDraws = replicate 1849 quietDraws @ [quietDraws]"
    by (simp only: replicate_Suc replicate_append_same)
  have a: "apiRequestsRemaining (health (runDashboard (replicate 1850 quietDraws) ?i)) = 0"
    by (simp add: remaining_runDashboard initialDashboard_def)
  have b: "latencyMs (health (runDashboard (replicate 1850 quietDraws) ?i)) = 45"
    using l by (rule quiet_latency)
  have "status (health (runDashboard (replicate 1850 quietDraws) ?i)) = ALIVE"
    using quiet_latency [OF l, of 1849]
    by (simp only: r runDashboard_snoc health_tickDashboard)
       (simp add: newLatency_def quietDraws_def)
  then show ?thesis using a b by simp
qed

section \<open>The hold-to-confirm button\<close>

lemma startPress_idle:
  "idle g \<Longrightarrow> isPressing (startPress g) \<and> timerLive (startPress g) \<and>
     progress (startPress g) = 0 \<and> triggered (startPress g) = triggered g"
  by (simp add: idle_def startPress_def pressEffect_def effectCleanup_def)

lemma intervalTick_advance:
  "timerLive g \<Longrightarrow> progress g < 100 \<Longrightarrow>
   intervalTick g = g\<lparr> progress := progress g + 6.25 \<rparr>"
  by (simp add: intervalTick_def HOLD_DURATION_def)

lemma intervalTick_fire:
  "timerLive g \<Longrightarrow> 100 \<le> progress g \<Longrightarrow>
   intervalTick g = g\<lparr> timerLive := False, triggered := Suc (triggered g), progress := 0 \<rparr>"
  by (simp add: intervalTick_def)

lemma intervalTick_cleared: "\<not> timerLive g \<Longrightarrow> intervalTick g = g"
  by (simp add: intervalTick_def)

text \<open>The first sixteen ticks of a press: 6.25% each, and no call of the callback.\<close>

lemma pressing_ticks:
  "idle g \<Longrightarrow> n \<le> 16 \<Longrightarrow>
   isPressing ((intervalTick ^^ n) (startPress g)) \<and>
   timerLive ((intervalTick ^^ n) (startPress g)) \<and>
   progress ((intervalTick ^^ n) (startPress g)) = 6.25 * real n \<and>
   triggered ((intervalTick ^^ n) (startPress g)) = triggered g"
proof (induction n)
  case 0
  then show ?case using startPress_idle [of g] by simp
next
  case (Suc n)
  let ?s = "(intervalTick ^^ n) (startPress g)"
  from Suc have s: "isPressing ?s" "timerLive ?s" "progress ?s = 6.25 * real n"
    "triggered ?s = triggered g"
    by simp_all
  have "progress ?s < 100" using s(3) Suc.prems(2) by simp
  then have "intervalTick ?s = ?s\<lparr> progress := progress ?s + 6.25 \<rparr>"
    using s(2) by (rule intervalTick_advance [rotated])
  then show ?case using s by (simp add: algebra_simps)
qed

text \<open>
  From the seventeenth tick on: the callback has been called once, the interval is
  cleared and the progress is back at 0, the button still pressed.
\<close>

lemma fired_ticks:
  "idle g \<Longrightarrow>
   isPressing ((intervalTick ^^ (17 + k)) (startPress g)) \<and>
   \<not> timerLive ((intervalTick ^^ (17 + k)) (startPress g)) \<and>
   progress ((intervalTick ^^ (17 + k)) (startPress g)) = 0 \<and>
   triggered ((intervalTick ^^ (17 + k)) (startPress g)) = Suc (triggered g)"
proof (induction k)
  case 0
  let ?s = "(intervalTick ^^ 16) (startPress g)"
  have s: "isPressing ?s" "timerLive ?s" "progress ?s = 100" "triggered ?s = triggered g"
    using pressing_ticks [OF 0, of 16] by simp_all
  have "(intervalTick ^^ 17) (startPress g) = intervalTick ?s"
    by (simp add: eval_nat_numeral)
  also have "\<dots> = ?s\<lparr> timerLive := False, triggered := Suc (triggered ?s), progress := 0 \<rparr>"
    using s by (simp add: intervalTick_fire)
  finally show ?case using s by simp
next
  case (Suc k)
  let ?s = "(intervalTick ^^ (17 + k)) (startPress g)"
  have "(intervalTick ^^ (17 + Suc k)) (startPress g)
      = (intervalTick ^^ Suc (17 + k)) (startPress g)"
    by (simp only: add_Suc_right)
  also have "\<dots> = intervalTick ?s"
    by (simp only: funpow.simps o_apply)
  also have "\<dots> = ?s" using Suc by (simp add: intervalTick_cleared)
  finally show ?case using Suc by simp
qed

lemma endPress_resets:
  "idle (endPress g) \<and> triggered (endPress g) = triggered g"
  by (simp add: endPress_def idle_def pressEffect_def effectCleanup_def Let_def)

lemma held_snoc: "held (es @ [e]) g = gateStep e (held es g)"
  by (simp add: held_def)

lemma gateStep_below:
  "isPressing s \<Longrightarrow> timerLive s \<Longrightarrow> progress s < 100 \<Longrightarrow>
   isPressing (gateStep e s) \<and> timerLive (gateStep e s) \<and> triggered (gateStep e s) = triggered s"
  by (cases e)
     (simp_all add: intervalTick_def rerender_def pressEffect_def effectCleanup_def)

text \<open>
  While the progress has stayed below 100%, the button is pressed, its interval is
  scheduled and the callback has not been called.
\<close>

lemma held_below:
  "idle g \<Longrightarrow> \<forall>k\<le>length es. progress (held (take k es) g) < 100 \<Longrightarrow>
   isPressing (held es g) \<and> timerLive (held es g) \<and> triggered (held es g) = triggered g"
proof (induction es rule: rev_induct)
  case Nil
  then show ?case using startPress_idle [of g] by (simp add: held_def)
next
  case (snoc e es)
  have "progress (held (take k es) g) < 100" if "k \<le> length es" for k
    using snoc.prems(2) [rule_format, of k] that by simp
  then have i: "isPressing (held es g) \<and> timerLive (held es g) \<and>
      triggered (held es g) = triggered g"
    using snoc.IH [OF snoc.prems(1)] by simp
  have "progress (held es g) < 100"
    using snoc.prems(2) [rule_format, of "length es"] by simp
  then show ?case
    using i gateStep_below [of "held es g" e] by (simp add: held_snoc)
qed

lemma held_eval:
  "held [] initialGate = \<lparr> progress = 0, isPressing = True, timerLive = True, triggered = 0 \<rparr>"
  "held [Tick] initialGate
     = \<lparr> progress = 6.25, isPressing = True, timerLive = True, triggered = 0 \<rparr>"
  "held [Tick, Rerender] initialGate
     = \<lparr> progress = 6.25, isPressing = True, timerLive = True, triggered = 0 \<rparr>"
  "held [Tick, Rerender, Tick] initialGate
     = \<lparr> progress = 12.5, isPressing = True, timerLive = True, triggered = 0 \<rparr>"
  by (simp_all add: held_def initialGate_def startPress_def pressEffect_def effectCleanup_def
      intervalTick_def rerender_def HOLD_DURATION_def)

text \<open>
  Claim C3. A press starts on a button at rest, and any events \<open>es\<close> (firings of the
  interval, renders of the dashboard) come before the release. If the progress has stayed
  strictly below 100% up to the release, the callback has not been called during the
  press and is not called by the release, and the release resets the progress to zero:
  the button is at rest again, its interval cleared, and the next press starts from zero.
\<close>

theorem release_before_completion:
  "idle g \<Longrightarrow> \<forall>k\<le>length es. progress (held (take k es) g) < 100 \<Longrightarrow>
   triggered (held es g) = triggered g \<and>
   triggered (endPress (held es g)) = triggered g \<and>
   progress (endPress (held es g)) = 0 \<and>
   idle (endPress (held es g)) \<and>
   intervalTick (endPress (held es g)) = endPress (held es g) \<and>
   progress (startPress (endPress (held es g))) = 0"
proof -
  assume i: "idle g" and b: "\<forall>k\<le>length es. progress (held (take k es) g) < 100"
  let ?s = "held es g"
  have t: "triggered ?s = triggered g" using held_below [OF i b] by simp
  have e: "idle (endPress ?s)" "triggered (endPress ?s) = triggered ?s"
    using endPress_resets [of ?s] by simp_all
  have "intervalTick (endPress ?s) = endPress ?s"
    using e(1) by (simp add: intervalTick_cleared idle_def)
  moreover have "progress (startPress (endPress ?s)) = 0"
    using startPress_idle [OF e(1)] by simp
  ultimately show ?thesis using t e by (simp add: idle_def)
qed

text \<open>
  Claim C3, witness: a release after two ticks and a render, at 12.5%, calls nothing and
  resets the progress.
\<close>

theorem release_before_completion_witness:
  "idle initialGate \<and>
   progress (held [Tick, Rerender, Tick] initialGate) = 12.5 \<and>
   triggered (endPress (held [Tick, Rerender, Tick] initialGate)) = 0 \<and>
   progress (endPress (held [Tick, Rerender, Tick] initialGate)) = 0"
proof -
  have i: "idle initialGate" by (simp add: idle_def initialGate_def)
  have b: "\<forall>k\<le>length [Tick, Rerender, Tick].
      progress (held (take k [Tick, Rerender, Tick]) initialGate) < 100"
  proof (intro allI impI)
    fix k :: nat assume "k \<le> length [Tick, Rerender, Tick]"
    then consider "k = 0" | "k = 1" | "k = 2" | "k = 3" by fastforce
    then show "progress (held (take k [Tick, Rerender, Tick]) initialGate) < 100"
      by cases (simp_all add: held_eval)
  qed
  have p: "progress (held [Tick, Rerender, Tick] initialGate) = 12.5"
    by (simp add: held_eval)
  have z: "triggered initialGate = 0" by (simp add: initialGate_def)
  show ?thesis
    using i p release_before_completion [OF i b] by (simp add: z)
qed

text \<open>
  Claim C4, the code at the failing input. After sixteen ticks of an uninterrupted press
  (800 ms) the progress is 100% and the callback has not been called; a release at that
  moment calls nothing. The call comes with the seventeenth tick (850 ms), which also
  resets the progress and leaves the button pressed.
\<close>

theorem hold_800ms_does_not_fire:
  "progress ((intervalTick ^^ 16) (startPress initialGate)) = 100 \<and>
   triggered ((intervalTick ^^ 16) (startPress initialGate)) = 0 \<and>
   triggered (endPress ((intervalTick ^^ 16) (startPress initialGate))) = 0 \<and>
   triggered ((intervalTick ^^ 17) (startPress initialGate)) = 1 \<and>
   progress ((intervalTick ^^ 17) (startPress initialGate)) = 0 \<and>
   isPressing ((intervalTick ^^ 17) (startPress initialGate))"
proof -
  have i: "idle initialGate" by (simp add: idle_def initialGate_def)
  show ?thesis
    using pressing_ticks [OF i, of 16] fired_ticks [OF i, of 0]
      endPress_resets [of "(intervalTick ^^ 16) (startPress initialGate)"]
    by (simp add: initialGate_def)
qed

section \<open>The log\<close>

lemma logs_tickDashboard: "logs (tickDashboard d prev) = newLogs d prev"
  by (simp add: tickDashboard_def)

lemma length_newLogs:
  "0.9 < rLog d \<Longrightarrow>
   length (newLogs d prev) = (if length (logs prev) < 50 then Suc (length (logs prev))
                              else length (logs prev))"
  by (simp add: newLogs_def Let_def)

text \<open>The tick alone never lets a log of at most 50 lines grow beyond 50.\<close>

lemma tick_keeps_capacity:
  "length (logs prev) \<le> 50 \<Longrightarrow> length (logs (tickDashboard d prev)) \<le> 50"
  by (simp add: logs_tickDashboard newLogs_def Let_def)

lemma length_logs_closePosition:
  "length (logs (closePosition i symb now ts prev)) = Suc (length (logs prev))"
  by (simp add: closePosition_def)

lemma ids_tickDashboard:
  "map id_pos (positions (tickDashboard d prev)) = map id_pos (positions prev)"
proof -
  have "map id_pos (map (\<lambda>(i, pos). tickPosition (rPos d i) pos) (enumerate n ps))
          = map id_pos ps" for n ps
    by (induction ps arbitrary: n) (simp_all add: tickPosition_def)
  then show ?thesis by (simp add: tickDashboard_def)
qed

lemma logging_run:
  "length (logs s) + n \<le> 50 \<Longrightarrow>
   length (logs (runDashboard (replicate n loggingDraws) s)) = length (logs s) + n \<and>
   map id_pos (positions (runDashboard (replicate n loggingDraws) s)) = map id_pos (positions s)"
proof (induction n)
  case 0
  then show ?case by (simp add: runDashboard_def)
next
  case (Suc n)
  have r: "replicate (Suc n) loggingDraws = replicate n loggingDraws @ [loggingDraws]"
    by (simp add: replicate_append_same)
  have g: "0.9 < rLog loggingDraws" by (simp add: loggingDraws_def)
  from Suc show ?case
    by (simp only: r runDashboard_snoc logs_tickDashboard length_newLogs [OF g]
        ids_tickDashboard) simp
qed

text \<open>
  Claim C5, the code at the failing input. Forty-eight logging ticks fill the log of the
  initial state to 50 lines, position 1 still open; liquidating it leaves 51 lines, and
  the next logging tick, which evicts one line for the one it adds, leaves 51 again.
\<close>

theorem liquidation_log_exceeds_capacity:
  "validTickDraws 3 loggingDraws \<and>
   length (logs (runDashboard (replicate 48 loggingDraws) (initialDashboard '''' ''''))) = 50 \<and>
   map id_pos (positions (runDashboard (replicate 48 loggingDraws) (initialDashboard '''' '''')))
     = [''1'', ''2'', ''3''] \<and>
   length (logs (closePosition ''1'' ''BTC/USD'' 1700000000000 ''10:00:48 AM''
     (runDashboard (replicate 48 loggingDraws) (initialDashboard '''' '''')))) = 51 \<and>
   length (logs (tickDashboard loggingDraws
     (closePosition ''1'' ''BTC/USD'' 1700000000000 ''10:00:48 AM''
       (runDashboard (replicate 48 loggingDraws) (initialDashboard '''' ''''))))) = 51"
proof -
  let ?i = "initialDashboard '''' ''''"
  have l: "length (logs ?i) = 2" and p: "map id_pos (positions ?i) = [''1'', ''2'', ''3'']"
    by (simp_all add: initialDashboard_def)
  have v: "validTickDraws 3 loggingDraws"
    by (simp add: validTickDraws_def isRandom_def loggingDraws_def list_all_iff)
  have g: "0.9 < rLog loggingDraws" by (simp add: loggingDraws_def)
  have "length (logs ?i) + 48 \<le> 50" using l by simp
  from logging_run [OF this] show ?thesis
    using v l p by (simp add: length_logs_closePosition logs_tickDashboard length_newLogs [OF g])
qed

section \<open>Closing a position\<close>

text \<open>
  Claim C8, as amended. For every id absent from the positions, \<open>closePosition\<close> leaves
  the list of positions exactly unchanged (and so its length), signals nothing and always
  succeeds; it still appends its one WARN line to the log, and changes nothing else.
\<close>

theorem closePosition_absent_id:
  "i \<notin> id_pos ` set (positions prev) \<Longrightarrow>
   positions (closePosition i symb now ts prev) = positions prev \<and>
   length (positions (closePosition i symb now ts prev)) = length (positions prev) \<and>
   logs (closePosition i symb now ts prev) = logs prev @
     [ \<lparr> id_log = now, timestamp = ts, level = WARN,
         message = Some (''MANUAL LIQUIDATION: '' @ symb @ '' CLOSED'') \<rparr> ] \<and>
   health (closePosition i symb now ts prev) = health prev \<and>
   dailyPnL (closePosition i symb now ts prev) = dailyPnL prev \<and>
   winRate_D (closePosition i symb now ts prev) = winRate_D prev"
proof -
  assume "i \<notin> id_pos ` set (positions prev)"
  then have "filter (\<lambda>p. id_pos p \<noteq> i) (positions prev) = positions prev"
    by (intro filter_True) auto
  then show ?thesis by (simp add: closePosition_def)
qed

text \<open>Claim C8, witness: closing the absent id 9 in the initial state.\<close>

theorem closePosition_absent_id_witness:
  "''9'' \<notin> id_pos ` set (positions (initialDashboard '''' '''')) \<and>
   positions (closePosition ''9'' ''XRP/USD'' 0 '''' (initialDashboard '''' ''''))
     = positions (initialDashboard '''' '''') \<and>
   map level (logs (closePosition ''9'' ''XRP/USD'' 0 '''' (initialDashboard '''' '''')))
     = [INFO, INFO, WARN]"
proof -
  have a: "''9'' \<notin> id_pos ` set (positions (initialDashboard '''' ''''))"
    by (simp add: initialDashboard_def)
  show ?thesis
    using a closePosition_absent_id [OF a, of "''XRP/USD''" 0 "''''"]
    by (simp add: initialDashboard_def)
qed

text \<open>
  Claim C8, counterexample. Closing the absent id 9 in the initial state leaves the
  positions as they are, and the log grows from two lines to three.
\<close>

theorem absent_id_still_logged:
  "''9'' \<notin> id_pos ` set (positions (initialDashboard '''' '''')) \<and>
   positions (closePosition ''9'' ''XRP/USD'' 0 '''' (initialDashboard '''' ''''))
     = positions (initialDashboard '''' '''') \<and>
   length (logs (initialDashboard '''' '''')) = 2 \<and>
   length (logs (closePosition ''9'' ''XRP/USD'' 0 '''' (initialDashboard '''' ''''))) = 3 \<and>
   message (last (logs (closePosition ''9'' ''XRP/USD'' 0 '''' (initialDashboard '''' ''''))))
     = Some ''MANUAL LIQUIDATION: XRP/USD CLOSED''"
  by (simp add: closePosition_def initialDashboard_def)

section \<open>The tick on the positions\<close>

lemma nth_positions_tickDashboard:
  "i < length (positions prev) \<Longrightarrow>
   positions (tickDashboard d prev) ! i = tickPosition (rPos d i) (positions prev ! i)"
  by (simp add: tickDashboard_def nth_enumerate_eq)

text \<open>
  Claim C9, as amended. A tick neither creates nor destroys a position: the ids are the
  same, in the same order. In each position it changes the P&L, by ten times the draw
  less a half, and the price history, and nothing else: id, symbol, side, entry price,
  mark price, z-score, duration and maximum duration stay as they are. A history of eight
  samples keeps its length: the oldest sample is dropped and the newest one, the former
  newest plus a delta, is appended.
\<close>

theorem tick_changes_pnl_and_history_only:
  "map id_pos (positions (tickDashboard d prev)) = map id_pos (positions prev) \<and>
   length (positions (tickDashboard d prev)) = length (positions prev) \<and>
   (\<forall>i<length (positions prev).
      id_pos (positions (tickDashboard d prev) ! i) = id_pos (positions prev ! i) \<and>
      symbol (positions (tickDashboard d prev) ! i) = symbol (positions prev ! i) \<and>
      side (positions (tickDashboard d prev) ! i) = side (positions prev ! i) \<and>
      entryPrice (positions (tickDashboard d prev) ! i) = entryPrice (positions prev ! i) \<and>
      markPrice (positions (tickDashboard d prev) ! i) = markPrice (positions prev ! i) \<and>
      zScore (positions (tickDashboard d prev) ! i) = zScore (positions prev ! i) \<and>
      durationMinutes (positions (tickDashboard d prev) ! i)
        = durationMinutes (positions prev ! i) \<and>
      maxDurationMinutes (positions (tickDashboard d prev) ! i)
        = maxDurationMinutes (positions prev ! i) \<and>
      pnl (positions (tickDashboard d prev) ! i)
        = pnl (positions prev ! i) + (fst (rPos d i) - 0.5) * 10 \<and>
      (length (priceHistory (positions prev ! i)) = 8 \<longrightarrow>
         length (priceHistory (positions (tickDashboard d prev) ! i)) = 8 \<and>
         butlast (priceHistory (positions (tickDashboard d prev) ! i))
           = tl (priceHistory (positions prev ! i)) \<and>
         last (priceHistory (positions (tickDashboard d prev) ! i))
           = js_plus (last (priceHistory (positions prev ! i))) ((snd (rPos d i) - 0.5) * 10)))"
proof -
  have h: "length h = 8 \<Longrightarrow> js_nth h 7 = last h" for h :: "jsnum list"
    by (cases h rule: rev_cases) (simp_all add: js_nth_def nth_append)
  have t: "drop (Suc 0) h = tl h" for h :: "jsnum list"
    by (simp add: drop_Suc)
  show ?thesis
    using ids_tickDashboard [of d prev]
    by (auto simp: nth_positions_tickDashboard tickPosition_def h t
        dest: arg_cong [where f = length])
qed

text \<open>
  Claim C9, witness: the first position of the initial state after a tick whose two
  draws for it are one half each.
\<close>

theorem tick_changes_pnl_and_history_only_witness:
  "pnl (positions (tickDashboard loggingDraws (initialDashboard '''' '''')) ! 0) = 450 \<and>
   priceHistory (positions (tickDashboard loggingDraws (initialDashboard '''' '''')) ! 0)
     = map Num [63950, 63900, 64100, 64200, 64150, 64300, 64500, 64500]"
proof -
  let ?i = "initialDashboard '''' ''''"
  let ?h = "priceHistory (positions (tickDashboard loggingDraws ?i) ! 0)"
  have n: "0 < length (positions ?i)" and l: "length (priceHistory (positions ?i ! 0)) = 8"
    by (simp_all add: initialDashboard_def)
  from tick_changes_pnl_and_history_only [of loggingDraws ?i] n l
  have p: "pnl (positions (tickDashboard loggingDraws ?i) ! 0)
             = pnl (positions ?i ! 0) + (fst (rPos loggingDraws 0) - 0.5) * 10"
    and b: "butlast ?h = tl (priceHistory (positions ?i ! 0))"
    and e: "last ?h = js_plus (last (priceHistory (positions ?i ! 0)))
               ((snd (rPos loggingDraws 0) - 0.5) * 10)"
    and k: "length ?h = 8"
    by blast+
  from k have "?h \<noteq> []" by auto
  then have "?h = butlast ?h @ [last ?h]" by simp
  then have "?h = tl (priceHistory (positions ?i ! 0)) @
      [js_plus (last (priceHistory (positions ?i ! 0))) ((snd (rPos loggingDraws 0) - 0.5) * 10)]"
    using b e by simp
  then show ?thesis using p
    by (simp add: initialDashboard_def loggingDraws_def)
qed

text \<open>
  Claim C9, counterexample. A tick leaves the duration of the first position at 14
  minutes and its mark price at 64500.
\<close>

theorem tick_keeps_duration_and_mark:
  "durationMinutes (positions (initialDashboard '''' '''') ! 0) = 14 \<and>
   durationMinutes (positions (tickDashboard loggingDraws (initialDashboard '''' '''')) ! 0) = 14 \<and>
   markPrice (positions (initialDashboard '''' '''') ! 0) = 64500 \<and>
   markPrice (positions (tickDashboard loggingDraws (initialDashboard '''' '''')) ! 0) = 64500"
  by (simp add: tickDashboard_def tickPosition_def initialDashboard_def)

end
